theory Spec2Isabelle
  imports Complex_Main
begin

section \<open>Timestamps\<close>

text \<open>
  The store's \<^verbatim>\<open>TIMESTAMP\<close> columns and the arguments of the \<^verbatim>\<open>free_slots\<close> macro are
  time-zone free instants with microsecond resolution. A timestamp is the number of
  microseconds since 1970-01-01 00:00:00; intervals are numbers of microseconds.
  The engine's 64-bit range is not modelled: timestamps are unbounded integers.
\<close>

type_synonym timestamp = int

definition usec_per_minute :: int where
  "usec_per_minute = 60000000"

definition usec_per_hour :: int where
  "usec_per_hour = 3600000000"

definition usec_per_day :: int where
  "usec_per_day = 86400000000"

text \<open>\<^verbatim>\<open>INTERVAL (n || ' minutes')\<close> and \<^verbatim>\<open>INTERVAL '30 minutes'\<close>.\<close>

definition interval_minutes :: "int \<Rightarrow> int" where
  "interval_minutes n = n * usec_per_minute"

text \<open>\<^verbatim>\<open>EXTRACT(hour FROM t)\<close>: the hour of the day, 0 to 23.\<close>

definition extract_hour :: "timestamp \<Rightarrow> int" where
  "extract_hour t = (t div usec_per_hour) mod 24"

text \<open>\<^verbatim>\<open>DATE(t)\<close>: the day number, counted from 1970-01-01.\<close>

definition date_of :: "timestamp \<Rightarrow> int" where
  "date_of t = t div usec_per_day"

text \<open>
  \<^verbatim>\<open>EXTRACT(dow FROM t)\<close>: the day of the week, 0 for Sunday to 6 for Saturday.
  1970-01-01 was a Thursday.
\<close>

definition extract_dow :: "timestamp \<Rightarrow> int" where
  "extract_dow t = (date_of t + 4) mod 7"

section \<open>The events table\<close>

text \<open>
  The twelve columns of the \<^verbatim>\<open>events\<close> table that \<^verbatim>\<open>_transform_event_data\<close> computes
  (the keys of the dictionary it returns), and a row of the table created by
  \<^verbatim>\<open>_setup_database\<close>, which has \<^verbatim>\<open>created_at\<close> and \<^verbatim>\<open>updated_at\<close> as well. The table
  is the list of its rows, in insertion order. Rows are the ones the sync writes, so no
  column holds \<^verbatim>\<open>NULL\<close>.
\<close>

record event_fields =
  id :: string
  title :: string
  description :: string
  start_time :: timestamp
  end_time :: timestamp
  duration_minutes :: int
  attendees_count :: int
  meeting_type :: string
  creator_email :: string
  status :: string
  location :: string
  is_recurring :: bool

record event_row = event_fields +
  created_at :: timestamp
  updated_at :: timestamp

type_synonym events_table = "event_row list"

section \<open>The free-slots macro\<close>

text \<open>
  The recursive common table expression \<^verbatim>\<open>time_slots\<close>: its first row is
  \<^verbatim>\<open>start_date\<close>, without any condition; a row \<^verbatim>\<open>slot_start\<close> produces the row
  thirty minutes later when that one is strictly before \<^verbatim>\<open>end_date\<close>.
\<close>

function time_slots :: "timestamp \<Rightarrow> timestamp \<Rightarrow> timestamp list" where
  "time_slots slot_start end_date =
     slot_start #
       (if slot_start + interval_minutes 30 < end_date
        then time_slots (slot_start + interval_minutes 30) end_date
        else [])"
  by pat_completeness auto
termination
  by (relation "measure (\<lambda>(s, e). nat (e - s))")
     (auto simp: interval_minutes_def usec_per_minute_def)

declare time_slots.simps [simp del]

text \<open>
  \<^verbatim>\<open>busy_times\<close>: the confirmed events that start at or after \<^verbatim>\<open>start_date\<close> and end
  at or before \<^verbatim>\<open>end_date\<close>.
\<close>

definition busy_times :: "events_table \<Rightarrow> timestamp \<Rightarrow> timestamp \<Rightarrow> (timestamp \<times> timestamp) list" where
  "busy_times events start_date end_date =
     map (\<lambda>e. (start_time e, end_time e))
       (filter (\<lambda>e. status e = ''confirmed'' \<and> start_time e \<ge> start_date \<and> end_time e \<le> end_date)
          events)"

text \<open>The \<^verbatim>\<open>NOT EXISTS\<close> subquery of the macro: no busy interval meets the slot.\<close>

definition no_conflict :: "(timestamp \<times> timestamp) list \<Rightarrow> int \<Rightarrow> timestamp \<Rightarrow> bool" where
  "no_conflict busy duration slot_start =
     (\<not> list_ex (\<lambda>(b_start, b_end).
           b_start < slot_start + interval_minutes duration \<and> b_end > slot_start) busy)"

text \<open>
  The two \<^verbatim>\<open>BETWEEN\<close> conditions of the macro, commented there as business hours and
  weekdays. \<^verbatim>\<open>x BETWEEN a AND b\<close> is \<^verbatim>\<open>a <= x AND x <= b\<close>.
\<close>

definition business_hours :: "timestamp \<Rightarrow> bool" where
  "business_hours slot_start = (9 \<le> extract_hour slot_start \<and> extract_hour slot_start \<le> 17)"

definition weekdays :: "timestamp \<Rightarrow> bool" where
  "weekdays slot_start = (1 \<le> extract_dow slot_start \<and> extract_dow slot_start \<le> 5)"

text \<open>
  The table macro \<^verbatim>\<open>free_slots(start_date, end_date, duration_minutes)\<close>: the rows
  \<^verbatim>\<open>(slot_start, slot_end)\<close> of the slots that pass the three conditions, in the order
  in which \<^verbatim>\<open>time_slots\<close> produces them.
\<close>

definition free_slots :: "events_table \<Rightarrow> timestamp \<Rightarrow> timestamp \<Rightarrow> int \<Rightarrow> (timestamp \<times> timestamp) list" where
  "free_slots events start_date end_date duration =
     map (\<lambda>slot_start. (slot_start, slot_start + interval_minutes duration))
       (filter (\<lambda>slot_start.
            no_conflict (busy_times events start_date end_date) duration slot_start
            \<and> business_hours slot_start
            \<and> weekdays slot_start)
          (time_slots start_date end_date))"


section \<open>Python values and failures\<close>

text \<open>
  The exceptions the modelled code can raise. Every one of them is an \<^verbatim>\<open>Exception\<close>, so the
  \<^verbatim>\<open>except Exception\<close> clauses of the handlers catch them all.
\<close>

datatype error =
    KeyError string
  | ValueError string
  | TypeError string
  | ConstraintError string
  | ConversionError string
  | HTTPError string
  | ZeroDivisionError

text \<open>
  A Python \<^verbatim>\<open>datetime\<close>: its date and time fields, as the microseconds they count from
  1970-01-01 00:00:00, and the offset of its \<^verbatim>\<open>tzinfo\<close> in microseconds (\<open>None\<close> for a
  naive value).
\<close>

record pydatetime =
  wall :: int
  utcoffset :: "int option"

text \<open>
  \<^verbatim>\<open>a - b\<close> on two datetimes, in microseconds. Python refuses to subtract a naive value
  from an aware one and the reverse.
\<close>

definition datetime_sub :: "pydatetime \<Rightarrow> pydatetime \<Rightarrow> error + int" where
  "datetime_sub a b =
     (case (utcoffset a, utcoffset b) of
        (None, None) \<Rightarrow> Inr (wall a - wall b)
      | (Some oa, Some ob) \<Rightarrow> Inr ((wall a - oa) - (wall b - ob))
      | _ \<Rightarrow> Inl (TypeError ''can't subtract offset-naive and offset-aware datetimes''))"

subsection \<open>Floating-point division\<close>

text \<open>
  The source computes the duration as \<^verbatim>\<open>int((end_time - start_time).total_seconds() / 60)\<close>.
  Both divisions are IEEE 754 double-precision divisions: \<^verbatim>\<open>total_seconds()\<close> is the
  correctly rounded quotient of the (integer) microseconds by \<open>10\<^sup>6\<close>, and the division
  by 60 rounds again. A time difference is far from the overflow and the subnormal range
  of a double, so a division returns the multiple of a power of two that is nearest to the
  exact quotient, with a mantissa of 53 bits and ties to the even mantissa.
\<close>

text \<open>The number of binary digits of a positive integer.\<close>

function bit_length :: "int \<Rightarrow> int" where
  "bit_length n = (if n \<le> 0 then 0 else 1 + bit_length (n div 2))"
  by pat_completeness auto
termination
  by (relation "measure nat") auto

declare bit_length.simps [simp del]

text \<open>The largest \<open>k\<close> with \<open>2\<^sup>k \<le> n / d\<close>, for positive \<open>n\<close> and \<open>d\<close>.\<close>

definition floor_log2 :: "int \<Rightarrow> int \<Rightarrow> int" where
  "floor_log2 n d =
     (let k = bit_length n - bit_length d
      in if (if 0 \<le> k then d * 2 ^ nat k \<le> n else d \<le> n * 2 ^ nat (- k))
         then k else k - 1)"

text \<open>The integer nearest to \<open>num / den\<close>, the even one of the two when it is half way.\<close>

definition round_half_even :: "int \<Rightarrow> int \<Rightarrow> int" where
  "round_half_even num den =
     (let q = num div den; r = num mod den
      in if 2 * r < den then q
         else if den < 2 * r then q + 1
         else if even q then q else q + 1)"

text \<open>
  The double nearest to \<open>n / d\<close>, for \<open>n\<close> not negative and \<open>d\<close> positive, as a fraction
  whose denominator is a power of two: with \<open>e = floor_log2 n d - 52\<close> it is \<open>m * 2\<^sup>e\<close>,
  where \<open>m\<close> is \<open>n / (d * 2\<^sup>e)\<close> rounded.
\<close>

definition float_div :: "int \<Rightarrow> int \<Rightarrow> int \<times> int" where
  "float_div n d =
     (if n = 0 then (0, 1)
      else (let e = floor_log2 n d - 52
            in if 0 \<le> e
               then (round_half_even n (d * 2 ^ nat e) * 2 ^ nat e, 1)
               else (round_half_even (n * 2 ^ nat (- e)) d, 2 ^ nat (- e))))"

text \<open>
  \<^verbatim>\<open>int(delta.total_seconds() / 60)\<close> for a difference of \<open>us\<close> microseconds that is not
  negative: the two divisions, then the integer part.
\<close>

definition minutes_of_microseconds :: "int \<Rightarrow> int" where
  "minutes_of_microseconds us =
     (let total_seconds = float_div us 1000000;
          minutes = float_div (fst total_seconds) (snd total_seconds * 60)
      in fst minutes div snd minutes)"

text \<open>
  The same for any difference: the divisions and \<^verbatim>\<open>int\<close> are symmetric about zero
  (\<^verbatim>\<open>int\<close> rounds towards zero).
\<close>

definition timedelta_minutes :: "int \<Rightarrow> int" where
  "timedelta_minutes delta =
     (if 0 \<le> delta then minutes_of_microseconds delta
      else - minutes_of_microseconds (- delta))"

text \<open>
  The \<^verbatim>\<open>TIMESTAMP\<close> stored for a datetime passed as a query parameter: the instant it
  denotes, that is its fields for a naive value and its fields in UTC for an aware one.
\<close>

definition to_timestamp :: "pydatetime \<Rightarrow> timestamp" where
  "to_timestamp d = wall d - (case utcoffset d of None \<Rightarrow> 0 | Some off \<Rightarrow> off)"

text \<open>\<^verbatim>\<open>s.replace("Z", "+00:00")\<close>.\<close>

definition replace_Z :: "string \<Rightarrow> string" where
  "replace_Z s = concat (map (\<lambda>c. if c = CHR ''Z'' then ''+00:00'' else [c]) s)"

text \<open>\<^verbatim>\<open>s.split(sep)\<close> for a separator of one character.\<close>

fun split :: "char \<Rightarrow> string \<Rightarrow> string list" where
  "split sep [] = [[]]"
| "split sep (c # cs) =
     (if c = sep then [] # split sep cs
      else (case split sep cs of
              [] \<Rightarrow> [[c]]
            | piece # pieces \<Rightarrow> (c # piece) # pieces))"

section \<open>Raw events\<close>

text \<open>
  A raw event is the JSON object the remote source returns. A key may be absent
  (\<open>None\<close>); a key that is present holds a value of the type the interface documents.
\<close>

record raw_attendee =
  email :: "string option"

record raw_creator =
  creator_email_key :: "string option"

record raw_event =
  raw_id :: "string option"
  raw_title :: "string option"
  raw_description :: "string option"
  raw_start_time :: "string option"
  raw_end_time :: "string option"
  raw_attendees :: "raw_attendee list option"
  raw_creator :: "raw_creator option"
  raw_status :: "string option"
  raw_location :: "string option"
  raw_recurring :: "bool option"

text \<open>\<^verbatim>\<open>d.get(key, default)\<close>.\<close>

definition get_default :: "'a option \<Rightarrow> 'a \<Rightarrow> 'a" where
  "get_default v d = (case v of None \<Rightarrow> d | Some x \<Rightarrow> x)"

section \<open>The event transformer\<close>

text \<open>
  The set comprehension of \<^verbatim>\<open>_transform_event_data\<close>: for every attendee whose email
  contains \<^verbatim>\<open>@\<close>, the second piece of the email split at \<^verbatim>\<open>@\<close>.
\<close>

definition external_domains :: "raw_attendee list \<Rightarrow> string set" where
  "external_domains attendees =
     set (map (\<lambda>attendee. split CHR ''@'' (get_default (email attendee) '''') ! 1)
            (filter (\<lambda>attendee. CHR ''@'' \<in> set (get_default (email attendee) ''''))
               attendees))"

definition company_domain :: string where
  "company_domain = ''example.com''"

definition classify_meeting :: "raw_attendee list \<Rightarrow> string" where
  "classify_meeting attendees =
     (if card (external_domains attendees - {company_domain}) > 0 then ''external''
      else if length attendees > 1 then ''internal''
      else ''personal'')"

text \<open>
  \<^verbatim>\<open>datetime.fromisoformat(event[key].replace("Z", "+00:00"))\<close>: a missing key raises
  \<^verbatim>\<open>KeyError\<close>, a string that is no ISO date raises \<^verbatim>\<open>ValueError\<close>. The library function
  \<^verbatim>\<open>fromisoformat\<close> is a parameter of the model.
\<close>

definition parse_time ::
  "(string \<Rightarrow> pydatetime option) \<Rightarrow> string \<Rightarrow> string option \<Rightarrow> error + pydatetime" where
  "parse_time fromisoformat key v =
     (case v of
        None \<Rightarrow> Inl (KeyError key)
      | Some s \<Rightarrow>
          (case fromisoformat (replace_Z s) of
             None \<Rightarrow> Inl (ValueError s)
           | Some d \<Rightarrow> Inr d))"

text \<open>
  \<^verbatim>\<open>_transform_event_data\<close>. The statements that can raise are kept in the source's
  order: the two timestamps, their difference, and \<^verbatim>\<open>event["id"]\<close> when the result is
  built. The two datetimes are kept as the timestamps the database stores for them.
\<close>

definition transform_event_data ::
  "(string \<Rightarrow> pydatetime option) \<Rightarrow> raw_event \<Rightarrow> error + event_fields" where
  "transform_event_data fromisoformat event =
     (case parse_time fromisoformat ''start_time'' (raw_start_time event) of
        Inl e \<Rightarrow> Inl e
      | Inr start_dt \<Rightarrow>
     (case parse_time fromisoformat ''end_time'' (raw_end_time event) of
        Inl e \<Rightarrow> Inl e
      | Inr end_dt \<Rightarrow>
     (case datetime_sub end_dt start_dt of
        Inl e \<Rightarrow> Inl e
      | Inr delta \<Rightarrow>
     (let duration = timedelta_minutes delta;
          attendees = get_default (raw_attendees event) []
      in case raw_id event of
           None \<Rightarrow> Inl (KeyError ''id'')
         | Some event_id \<Rightarrow>
             Inr \<lparr> id = event_id,
                   title = get_default (raw_title event) ''No title'',
                   description = get_default (raw_description event) '''',
                   start_time = to_timestamp start_dt,
                   end_time = to_timestamp end_dt,
                   duration_minutes = duration,
                   attendees_count = int (length attendees),
                   meeting_type = classify_meeting attendees,
                   creator_email =
                     get_default (creator_email_key
                       (get_default (raw_creator event) \<lparr> creator_email_key = None \<rparr>)) '''',
                   status = get_default (raw_status event) ''confirmed'',
                   location = get_default (raw_location event) '''',
                   is_recurring = get_default (raw_recurring event) False \<rparr>))))"

section \<open>A parser for the timestamps of the interface\<close>

text \<open>
  A model of \<^verbatim>\<open>datetime.fromisoformat\<close> on the fixed-width forms
  \<^verbatim>\<open>YYYY-MM-DDTHH:MM:SS\<close> and \<^verbatim>\<open>YYYY-MM-DDTHH:MM:SS+HH:MM\<close> (or \<^verbatim>\<open>-HH:MM\<close>), which are
  the forms of the remote interface once \<^verbatim>\<open>Z\<close> is replaced. Python accepts further forms;
  this parser rejects them. It serves the concrete examples only: the general theorems
  about the transformer hold for every parser.
\<close>

definition digit_of :: "char \<Rightarrow> nat option" where
  "digit_of c =
     (let n = (of_char c :: nat) in if 48 \<le> n \<and> n \<le> 57 then Some (n - 48) else None)"

fun read_digits :: "nat \<Rightarrow> string \<Rightarrow> nat option" where
  "read_digits acc [] = Some acc"
| "read_digits acc (c # cs) =
     (case digit_of c of None \<Rightarrow> None | Some d \<Rightarrow> read_digits (10 * acc + d) cs)"

definition is_leap :: "nat \<Rightarrow> bool" where
  "is_leap y = (y mod 4 = 0 \<and> (y mod 400 = 0 \<or> y mod 100 \<noteq> 0))"

definition days_in_month :: "nat \<Rightarrow> nat \<Rightarrow> nat" where
  "days_in_month y m =
     (if m = 2 then (if is_leap y then 29 else 28)
      else if m = 4 \<or> m = 6 \<or> m = 9 \<or> m = 11 then 30 else 31)"

text \<open>The number of days from 1970-01-01 to the given date of the Gregorian calendar.\<close>

definition days_from_civil :: "nat \<Rightarrow> nat \<Rightarrow> nat \<Rightarrow> int" where
  "days_from_civil y m d =
     (let y' = (if m \<le> 2 then int y - 1 else int y);
          era = y' div 400;
          yoe = y' mod 400;
          mp = (int m + 9) mod 12;
          doy = (153 * mp + 2) div 5 + int d - 1;
          doe = yoe * 365 + yoe div 4 - yoe div 100 + doy
      in era * 146097 + doe - 719468)"

definition parse_offset :: "string \<Rightarrow> int option" where
  "parse_offset z =
     (if length z = 6 \<and> (z ! 0 = CHR ''+'' \<or> z ! 0 = CHR ''-'') \<and> z ! 3 = CHR '':''
      then Option.bind (read_digits 0 (take 2 (drop 1 z))) (\<lambda>h.
           Option.bind (read_digits 0 (drop 4 z)) (\<lambda>m.
           if h < 24 \<and> m < 60
           then Some ((if z ! 0 = CHR ''-'' then - 1 else 1)
                      * (int h * 60 + int m) * usec_per_minute)
           else None))
      else None)"

definition fromisoformat_fixed :: "string \<Rightarrow> pydatetime option" where
  "fromisoformat_fixed s =
     (if (length s = 19 \<or> length s = 25)
         \<and> s ! 4 = CHR ''-'' \<and> s ! 7 = CHR ''-'' \<and> s ! 10 = CHR ''T''
         \<and> s ! 13 = CHR '':'' \<and> s ! 16 = CHR '':''
      then Option.bind (read_digits 0 (take 4 s)) (\<lambda>y.
           Option.bind (read_digits 0 (take 2 (drop 5 s))) (\<lambda>mo.
           Option.bind (read_digits 0 (take 2 (drop 8 s))) (\<lambda>d.
           Option.bind (read_digits 0 (take 2 (drop 11 s))) (\<lambda>h.
           Option.bind (read_digits 0 (take 2 (drop 14 s))) (\<lambda>mi.
           Option.bind (read_digits 0 (take 2 (drop 17 s))) (\<lambda>sec.
           if 1 \<le> y \<and> 1 \<le> mo \<and> mo \<le> 12 \<and> 1 \<le> d \<and> d \<le> days_in_month y mo
              \<and> h < 24 \<and> mi < 60 \<and> sec < 60
           then (let w = (((days_from_civil y mo d * 24 + int h) * 60 + int mi) * 60
                          + int sec) * 1000000
                 in if length s = 19 then Some \<lparr> wall = w, utcoffset = None \<rparr>
                    else map_option (\<lambda>off. \<lparr> wall = w, utcoffset = Some off \<rparr>)
                           (parse_offset (drop 19 s)))
           else None))))))
      else None)"


section \<open>The sync\<close>

text \<open>
  \<^verbatim>\<open>SELECT id FROM events WHERE id = ?\<close> followed by \<^verbatim>\<open>fetchone()\<close>: the first matching
  row, if there is one.
\<close>

definition select_id :: "events_table \<Rightarrow> string \<Rightarrow> string option" where
  "select_id events event_id =
     (case filter (\<lambda>r. id r = event_id) events of
        [] \<Rightarrow> None
      | r # _ \<Rightarrow> Some (id r))"

text \<open>
  The columns \<^verbatim>\<open>duration_minutes\<close> and \<^verbatim>\<open>attendees_count\<close> are declared \<^verbatim>\<open>INTEGER\<close>, a
  signed integer of 32 bits. A statement that assigns a Python integer outside this range
  to such a column raises a conversion error and leaves the table as it is.
\<close>

definition fits_integer :: "int \<Rightarrow> bool" where
  "fits_integer n = (- 2147483648 \<le> n \<and> n \<le> 2147483647)"

definition columns_fit :: "event_fields \<Rightarrow> bool" where
  "columns_fit transformed =
     (fits_integer (duration_minutes transformed) \<and> fits_integer (attendees_count transformed))"

text \<open>
  The \<^verbatim>\<open>UPDATE\<close> statement: every row with the id gets the eleven other computed columns
  and \<^verbatim>\<open>updated_at\<close>; \<^verbatim>\<open>id\<close> and \<^verbatim>\<open>created_at\<close> are not assigned.
\<close>

definition update_event ::
  "events_table \<Rightarrow> event_fields \<Rightarrow> timestamp \<Rightarrow> error + events_table" where
  "update_event events transformed now =
     (if \<not> columns_fit transformed
      then Inl (ConversionError ''out of range for INT32'')
      else Inr (map (\<lambda>r. if id r = id transformed
               then r\<lparr> title := title transformed,
                       description := description transformed,
                       start_time := start_time transformed,
                       end_time := end_time transformed,
                       duration_minutes := duration_minutes transformed,
                       attendees_count := attendees_count transformed,
                       meeting_type := meeting_type transformed,
                       creator_email := creator_email transformed,
                       status := status transformed,
                       location := location transformed,
                       is_recurring := is_recurring transformed,
                       updated_at := now \<rparr>
               else r)
             events))"

text \<open>
  The \<^verbatim>\<open>INSERT\<close> statement. Besides the conversion error, the column \<^verbatim>\<open>id\<close> is the primary
  key of the table: the insertion of an id that a row already has raises a constraint
  error. The last two parameters are two calls of \<^verbatim>\<open>datetime.now\<close>.
\<close>

definition insert_event ::
  "events_table \<Rightarrow> event_fields \<Rightarrow> timestamp \<Rightarrow> timestamp \<Rightarrow> error + events_table" where
  "insert_event events transformed now1 now2 =
     (if \<not> columns_fit transformed
      then Inl (ConversionError ''out of range for INT32'')
      else if list_ex (\<lambda>r. id r = id transformed) events
      then Inl (ConstraintError ''Duplicate key'')
      else Inr (events @
             [\<lparr> id = id transformed,
                title = title transformed,
                description = description transformed,
                start_time = start_time transformed,
                end_time = end_time transformed,
                duration_minutes = duration_minutes transformed,
                attendees_count = attendees_count transformed,
                meeting_type = meeting_type transformed,
                creator_email = creator_email transformed,
                status = status transformed,
                location = location transformed,
                is_recurring = is_recurring transformed,
                created_at = now1,
                updated_at = now2 \<rparr>]))"

record sync_stats =
  fetched :: nat
  updated :: nat
  inserted :: nat
  errors :: nat

text \<open>
  The state of the loop of \<^verbatim>\<open>_handle_sync_data\<close>: the table, the statistics, and how many
  times the clock has been read. The clock is a parameter: \<open>clock k\<close> is what the
  \<open>k\<close>-th call of \<^verbatim>\<open>datetime.now(timezone.utc)\<close> returns.
\<close>

record sync_state =
  db :: events_table
  stats :: sync_stats
  ticks :: nat

text \<open>
  One iteration of the loop: the body of the \<^verbatim>\<open>try\<close>, and the \<^verbatim>\<open>except\<close> clause that
  counts an error for whatever the body raises: the transformer, the \<^verbatim>\<open>UPDATE\<close> or the
  \<^verbatim>\<open>INSERT\<close>. The parameters of a statement, and so the readings of the clock among them,
  are evaluated before the statement runs.
\<close>

definition process_event ::
  "(string \<Rightarrow> pydatetime option) \<Rightarrow> (nat \<Rightarrow> timestamp) \<Rightarrow> sync_state \<Rightarrow> raw_event \<Rightarrow> sync_state" where
  "process_event fromisoformat clock st event =
     (case transform_event_data fromisoformat event of
        Inl e \<Rightarrow> st\<lparr> stats := (stats st)\<lparr> errors := errors (stats st) + 1 \<rparr> \<rparr>
      | Inr transformed \<Rightarrow>
          (case select_id (db st) (id transformed) of
             Some existing \<Rightarrow>
               (case update_event (db st) transformed (clock (ticks st)) of
                  Inl e \<Rightarrow>
                    st\<lparr> stats := (stats st)\<lparr> errors := errors (stats st) + 1 \<rparr>,
                        ticks := ticks st + 1 \<rparr>
                | Inr events \<Rightarrow>
                    st\<lparr> db := events,
                        stats := (stats st)\<lparr> updated := updated (stats st) + 1 \<rparr>,
                        ticks := ticks st + 1 \<rparr>)
           | None \<Rightarrow>
               (case insert_event (db st) transformed
                       (clock (ticks st)) (clock (ticks st + 1)) of
                  Inl e \<Rightarrow>
                    st\<lparr> stats := (stats st)\<lparr> errors := errors (stats st) + 1 \<rparr>,
                        ticks := ticks st + 2 \<rparr>
                | Inr events \<Rightarrow>
                    st\<lparr> db := events,
                        stats := (stats st)\<lparr> inserted := inserted (stats st) + 1 \<rparr>,
                        ticks := ticks st + 2 \<rparr>)))"

text \<open>The \<^verbatim>\<open>for\<close> loop over the fetched events.\<close>

fun sync_loop ::
  "(string \<Rightarrow> pydatetime option) \<Rightarrow> (nat \<Rightarrow> timestamp) \<Rightarrow> sync_state \<Rightarrow> raw_event list \<Rightarrow> sync_state" where
  "sync_loop fromisoformat clock st [] = st"
| "sync_loop fromisoformat clock st (event # events) =
     sync_loop fromisoformat clock (process_event fromisoformat clock st event) events"

text \<open>
  \<^verbatim>\<open>_handle_sync_data\<close>. The token comes from the keyring (\<open>None\<close> when it is not set,
  which raises \<^verbatim>\<open>ValueError\<close>); the response of the remote source is either a failure of
  the request or the list under the key \<^verbatim>\<open>events\<close>. The clock is read once for the date
  range before the request. The result is the table after the call, with either the
  error that the outer \<^verbatim>\<open>except\<close> clause reports or the statistics and the number of
  rows that the response text shows.
\<close>

definition handle_sync_data ::
  "(string \<Rightarrow> pydatetime option) \<Rightarrow> (nat \<Rightarrow> timestamp) \<Rightarrow> string option \<Rightarrow>
   (error + raw_event list) \<Rightarrow> events_table \<Rightarrow> (error + sync_stats \<times> nat) \<times> events_table" where
  "handle_sync_data fromisoformat clock token response events =
     (case token of
        None \<Rightarrow> (Inl (ValueError ''API token not found. Please run setup_auth.py first.''), events)
      | Some t \<Rightarrow>
          (case response of
             Inl e \<Rightarrow> (Inl e, events)
           | Inr events_data \<Rightarrow>
               (let st = sync_loop fromisoformat clock
                           \<lparr> db = events,
                             stats = \<lparr> fetched = length events_data, updated = 0,
                                       inserted = 0, errors = 0 \<rparr>,
                             ticks = 1 \<rparr>
                           events_data
                in (Inr (stats st, length (db st)), db st))))"


section \<open>The insights report\<close>

text \<open>
  Hours, averages and percentages are floating-point numbers in the source. The model
  computes them exactly, as rational numbers. Python's \<^verbatim>\<open>/\<close> raises
  \<^verbatim>\<open>ZeroDivisionError\<close> on a zero divisor.
\<close>

definition py_truediv :: "rat \<Rightarrow> rat \<Rightarrow> error + rat" where
  "py_truediv a b = (if b = 0 then Inl ZeroDivisionError else Inr (a / b))"

definition bind_result :: "error + 'a \<Rightarrow> ('a \<Rightarrow> error + 'b) \<Rightarrow> error + 'b" where
  "bind_result r f = (case r of Inl e \<Rightarrow> Inl e | Inr x \<Rightarrow> f x)"

text \<open>
  The \<^verbatim>\<open>WHERE\<close> clause that the four queries of \<^verbatim>\<open>_handle_generate_insights\<close> share.
\<close>

definition confirmed_between :: "events_table \<Rightarrow> timestamp \<Rightarrow> timestamp \<Rightarrow> events_table" where
  "confirmed_between events start_date end_date =
     filter (\<lambda>e. start_time e \<ge> start_date \<and> start_time e \<le> end_date
                 \<and> status e = ''confirmed'') events"

text \<open>\<^verbatim>\<open>SELECT COUNT(*)\<close>.\<close>

definition total_meetings_query :: "events_table \<Rightarrow> timestamp \<Rightarrow> timestamp \<Rightarrow> int" where
  "total_meetings_query events start_date end_date =
     int (length (confirmed_between events start_date end_date))"

text \<open>\<^verbatim>\<open>SELECT COALESCE(SUM(duration_minutes), 0) / 60.0\<close>.\<close>

definition hours_of :: "event_row list \<Rightarrow> rat" where
  "hours_of rows = of_int (sum_list (map duration_minutes rows)) / 60"

definition total_hours_query :: "events_table \<Rightarrow> timestamp \<Rightarrow> timestamp \<Rightarrow> rat" where
  "total_hours_query events start_date end_date =
     hours_of (confirmed_between events start_date end_date)"

text \<open>
  \<^verbatim>\<open>GROUP BY\<close>: one group for each value of the key, in the order of the last row of each
  value. \<^verbatim>\<open>ORDER BY hours DESC\<close> is a stable sort on the hours; SQL leaves the order of
  groups with equal hours open.
\<close>

definition group_by :: "('a \<Rightarrow> 'k) \<Rightarrow> 'a list \<Rightarrow> ('k \<times> 'a list) list" where
  "group_by key rows = map (\<lambda>k. (k, filter (\<lambda>r. key r = k) rows)) (remdups (map key rows))"

definition meeting_breakdown_query ::
  "events_table \<Rightarrow> timestamp \<Rightarrow> timestamp \<Rightarrow> (string \<times> int \<times> rat) list" where
  "meeting_breakdown_query events start_date end_date =
     sort_key (\<lambda>(mt, n, hours). - hours)
       (map (\<lambda>(mt, rows). (mt, int (length rows), hours_of rows))
          (group_by meeting_type (confirmed_between events start_date end_date)))"

definition busiest_days_query ::
  "events_table \<Rightarrow> timestamp \<Rightarrow> timestamp \<Rightarrow> (int \<times> int \<times> rat) list" where
  "busiest_days_query events start_date end_date =
     take 5
       (sort_key (\<lambda>(day, n, hours). - hours)
          (map (\<lambda>(day, rows). (day, int (length rows), hours_of rows))
             (group_by (\<lambda>e. date_of (start_time e))
                (confirmed_between events start_date end_date))))"

text \<open>
  \<^verbatim>\<open>(total_hours * 60 / total_meetings) if total_meetings > 0 else 0\<close>, which the source
  writes twice.
\<close>

definition average_meeting_length_of :: "rat \<Rightarrow> int \<Rightarrow> error + rat" where
  "average_meeting_length_of total_hours total_meetings =
     (if total_meetings > 0 then py_truediv (total_hours * 60) (of_int total_meetings)
      else Inr 0)"

text \<open>
  The loop over the breakdown: each row with
  \<^verbatim>\<open>(hours / total_hours * 100) if total_hours > 0 else 0\<close>.
\<close>

fun breakdown_lines ::
  "rat \<Rightarrow> (string \<times> int \<times> rat) list \<Rightarrow> error + (string \<times> int \<times> rat \<times> rat) list" where
  "breakdown_lines total_hours [] = Inr []"
| "breakdown_lines total_hours ((mt, n, hours) # rest) =
     bind_result
       (if total_hours > 0
        then bind_result (py_truediv hours total_hours) (\<lambda>q. Inr (q * 100))
        else Inr 0)
       (\<lambda>percentage.
          bind_result (breakdown_lines total_hours rest)
            (\<lambda>lines. Inr ((mt, n, hours, percentage) # lines)))"

text \<open>
  What the name \<^verbatim>\<open>_\<close> can hold in the generator expression of the recommendations: a
  meeting type (a string) or a count (an integer). A string and an integer are never equal
  in Python.
\<close>

datatype pyvalue = PyStr string | PyInt int

text \<open>
  \<^verbatim>\<open>sum(hours for _, _, hours in meeting_breakdown if _ == "external")\<close>. The target
  \<^verbatim>\<open>_, _, hours\<close> assigns the name \<^verbatim>\<open>_\<close> twice, from left to right: first the meeting
  type, then the count. The condition reads \<^verbatim>\<open>_\<close> after both assignments.
\<close>

definition external_hours :: "(string \<times> int \<times> rat) list \<Rightarrow> rat" where
  "external_hours meeting_breakdown =
     sum_list
       (map (\<lambda>(mt, n, hours). hours)
          (filter (\<lambda>(mt, n, hours).
               (let underscore = PyStr mt;
                    underscore = PyInt n
                in underscore = PyStr ''external''))
             meeting_breakdown))"

datatype recommendation =
    HighMeetingLoad
  | HighExternalRatio
  | LongAverageDuration
  | ScheduleReview

text \<open>The body of \<^verbatim>\<open>if include_recommendations and total_hours > 0\<close>.\<close>

definition recommendations_of ::
  "rat \<Rightarrow> int \<Rightarrow> (string \<times> int \<times> rat) list \<Rightarrow> error + recommendation list" where
  "recommendations_of total_hours total_meetings meeting_breakdown =
     bind_result (py_truediv (external_hours meeting_breakdown) total_hours) (\<lambda>q.
       (let external_percentage = q * 100 in
        bind_result (average_meeting_length_of total_hours total_meetings)
          (\<lambda>avg_meeting_length.
             Inr ((if total_hours > 20 then [HighMeetingLoad] else [])
                  @ (if external_percentage > 60 then [HighExternalRatio] else [])
                  @ (if avg_meeting_length > 45 then [LongAverageDuration] else [])
                  @ [ScheduleReview]))))"

record insights_report =
  period_name :: string
  total_meetings :: int
  total_hours :: rat
  average_per_day :: rat
  average_meeting_length_minutes :: rat
  breakdown :: "(string \<times> int \<times> rat \<times> rat) list"
  busiest_days :: "(int \<times> int \<times> rat) list"
  recommendations :: "recommendation list"

text \<open>The number of days of the trailing window: 7, 30, or 90 for any other period.\<close>

definition period_days :: "string \<Rightarrow> int" where
  "period_days time_period =
     (if time_period = ''week'' then 7 else if time_period = ''month'' then 30 else 90)"

definition period_title :: "string \<Rightarrow> string" where
  "period_title time_period =
     (if time_period = ''week'' then ''Past Week''
      else if time_period = ''month'' then ''Past Month'' else ''Past Quarter'')"

text \<open>
  \<^verbatim>\<open>_handle_generate_insights\<close>, with the reading of the clock as a parameter. The
  result is the content of the report, or the error that the \<^verbatim>\<open>except\<close> clause reports.
  \<^verbatim>\<open>(end_date - start_date).days\<close> is the number of whole days of the difference.
\<close>

definition handle_generate_insights ::
  "timestamp \<Rightarrow> string \<Rightarrow> bool \<Rightarrow> events_table \<Rightarrow> error + insights_report" where
  "handle_generate_insights now time_period include_recommendations events =
     (let end_date = now;
          start_date = end_date - period_days time_period * usec_per_day;
          n_meetings = total_meetings_query events start_date end_date;
          hours = total_hours_query events start_date end_date;
          meeting_breakdown = meeting_breakdown_query events start_date end_date;
          days = busiest_days_query events start_date end_date
      in bind_result
           (py_truediv hours (of_int ((end_date - start_date) div usec_per_day)))
           (\<lambda>per_day.
        bind_result (average_meeting_length_of hours n_meetings) (\<lambda>avg_length.
        bind_result (breakdown_lines hours meeting_breakdown) (\<lambda>lines.
        bind_result
           (if include_recommendations \<and> hours > 0
            then recommendations_of hours n_meetings meeting_breakdown
            else Inr [])
           (\<lambda>recs.
              Inr \<lparr> period_name = period_title time_period,
                    total_meetings = n_meetings,
                    total_hours = hours,
                    average_per_day = per_day,
                    average_meeting_length_minutes = avg_length,
                    breakdown = lines,
                    busiest_days = days,
                    recommendations = recs \<rparr>)))))"


section \<open>Notions used to state the properties\<close>

text \<open>
  The row that holds the twelve computed columns of a transformed event and the two
  given timestamps.
\<close>

definition stored_row :: "event_fields \<Rightarrow> timestamp \<Rightarrow> timestamp \<Rightarrow> event_row" where
  "stored_row t c u =
     \<lparr> id = id t, title = title t, description = description t,
       start_time = start_time t, end_time = end_time t,
       duration_minutes = duration_minutes t, attendees_count = attendees_count t,
       meeting_type = meeting_type t, creator_email = creator_email t,
       status = status t, location = location t, is_recurring = is_recurring t,
       created_at = c, updated_at = u \<rparr>"

text \<open>A row without its \<^verbatim>\<open>updated_at\<close> column: the column is set to zero.\<close>

definition without_updated_at :: "event_row \<Rightarrow> event_row" where
  "without_updated_at r = r\<lparr> updated_at := 0 \<rparr>"

text \<open>
  The computed columns that the loop writes for a raw event: those of the transformed
  event, when the transformer does not raise and the table does not refuse the row.
\<close>

definition accepted :: "(string \<Rightarrow> pydatetime option) \<Rightarrow> raw_event \<Rightarrow> event_fields option" where
  "accepted f e =
     (case transform_event_data f e of
        Inl err \<Rightarrow> None
      | Inr t \<Rightarrow> if columns_fit t then Some t else None)"

text \<open>The events of a feed that the loop does not write.\<close>

definition rejected :: "(string \<Rightarrow> pydatetime option) \<Rightarrow> raw_event list \<Rightarrow> raw_event list" where
  "rejected f events = filter (\<lambda>e. accepted f e = None) events"

text \<open>The last event of a feed that the loop writes under the given id, if there is one.\<close>

fun last_write ::
  "(string \<Rightarrow> pydatetime option) \<Rightarrow> raw_event list \<Rightarrow> string \<Rightarrow> event_fields option" where
  "last_write f [] i = None"
| "last_write f (e # es) i =
     (case last_write f es i of
        Some t \<Rightarrow> Some t
      | None \<Rightarrow>
          (case accepted f e of
             None \<Rightarrow> None
           | Some t \<Rightarrow> if id t = i then Some t else None))"

text \<open>Whether a feed touches the row of an id: whether the loop writes an event under it.\<close>

definition touched :: "(string \<Rightarrow> pydatetime option) \<Rightarrow> raw_event list \<Rightarrow> string \<Rightarrow> bool" where
  "touched f es i =
     list_ex (\<lambda>e. case accepted f e of None \<Rightarrow> False | Some t \<Rightarrow> id t = i) es"

text \<open>
  A row before and after a second sync of a feed: a row that the feed does not touch is
  the same row, a row that it touches is the same but for \<^verbatim>\<open>updated_at\<close>.
\<close>

definition resynced ::
  "(string \<Rightarrow> pydatetime option) \<Rightarrow> raw_event list \<Rightarrow> event_row \<Rightarrow> event_row \<Rightarrow> bool" where
  "resynced f es r r' =
     (if touched f es (id r) then without_updated_at r' = without_updated_at r else r' = r)"

subsection \<open>Example inputs\<close>

text \<open>A clock that advances by one microsecond between two readings.\<close>

definition ticking_clock :: "nat \<Rightarrow> timestamp" where
  "ticking_clock k = 1705400000000000 + int k"

text \<open>
  A meeting of two colleagues on Monday 2024-01-15 from 09:00 to 09:30 UTC; an event
  whose end is one hour before its start; the meeting under another title; events without
  the key \<^verbatim>\<open>start_time\<close> and without the key \<^verbatim>\<open>end_time\<close>; and the meeting with an
  open end, from 2024-01-01 to the last day of the year 9999.
\<close>

definition event_standup :: raw_event where
  "event_standup =
     \<lparr> raw_id = Some ''evt-1'', raw_title = Some ''Standup'', raw_description = None,
       raw_start_time = Some ''2024-01-15T09:00:00Z'',
       raw_end_time = Some ''2024-01-15T09:30:00Z'',
       raw_attendees = Some [\<lparr> email = Some ''a@example.com'' \<rparr>,
                             \<lparr> email = Some ''b@example.com'' \<rparr>],
       raw_creator = Some \<lparr> creator_email_key = Some ''a@example.com'' \<rparr>,
       raw_status = None, raw_location = None, raw_recurring = None \<rparr>"


definition event_renamed :: raw_event where
  "event_renamed = event_standup\<lparr> raw_title := Some ''Daily standup'' \<rparr>"

definition event_no_start :: raw_event where
  "event_no_start = event_standup\<lparr> raw_id := Some ''evt-3'', raw_start_time := None \<rparr>"


definition event_open_end :: raw_event where
  "event_open_end =
     event_standup\<lparr> raw_title := Some ''Project'',
                    raw_start_time := Some ''2024-01-01T00:00:00Z'',
                    raw_end_time := Some ''9999-12-31T00:00:00Z'' \<rparr>"

text \<open>The transformed events of these examples.\<close>

definition fields_standup :: event_fields where
  "fields_standup =
     \<lparr> id = ''evt-1'', title = ''Standup'', description = '''',
       start_time = 1705309200000000, end_time = 1705311000000000,
       duration_minutes = 30, attendees_count = 2, meeting_type = ''internal'',
       creator_email = ''a@example.com'', status = ''confirmed'', location = '''',
       is_recurring = False \<rparr>"


definition fields_renamed :: event_fields where
  "fields_renamed = fields_standup\<lparr> title := ''Daily standup'' \<rparr>"

definition fields_open_end :: event_fields where
  "fields_open_end =
     fields_standup\<lparr> title := ''Project'',
                     start_time := 1704067200000000, end_time := 253402214400000000,
                     duration_minutes := 4194969120 \<rparr>"

text \<open>
  A confirmed external meeting of thirty minutes on Monday 2024-01-15, as a stored row,
  and the same meeting when it is tentative.
\<close>

definition row_external :: event_row where
  "row_external =
     \<lparr> id = ''evt-9'', title = ''Customer call'', description = '''',
       start_time = 1705309200000000, end_time = 1705311000000000,
       duration_minutes = 30, attendees_count = 2, meeting_type = ''external'',
       creator_email = '''', status = ''confirmed'', location = '''',
       is_recurring = False,
       created_at = 1705300000000000, updated_at = 1705300000000000 \<rparr>"

definition row_tentative :: event_row where
  "row_tentative = row_external\<lparr> status := ''tentative'' \<rparr>"

text \<open>
  How a second sync of a feed changes a stored row: the id and the creation time stay;
  a row whose id the feed does not write is unchanged; any other row holds the computed
  columns of the last event written under its id.
\<close>

definition rewritten ::
  "(string \<Rightarrow> pydatetime option) \<Rightarrow> raw_event list \<Rightarrow> event_row \<Rightarrow> event_row \<Rightarrow> bool" where
  "rewritten f es r r' =
     (id r' = id r \<and> created_at r' = created_at r
      \<and> (case last_write f es (id r) of
            None \<Rightarrow> r' = r
          | Some t \<Rightarrow> r' = stored_row t (created_at r) (updated_at r')))"


section \<open>Properties of the free-slots macro\<close>

lemma time_slots_empty_range:
  "end_date \<le> start_date \<Longrightarrow> time_slots start_date end_date = [start_date]"
  by (simp add: time_slots.simps interval_minutes_def usec_per_minute_def)

lemma free_slots_passes_filters:
  "(s, e) \<in> set (free_slots events start_date end_date duration) \<Longrightarrow>
     business_hours s \<and> weekdays s \<and> e = s + interval_minutes duration"
  by (auto simp: free_slots_def)

lemma time_slots_range:
  "t \<in> set (time_slots start_date end_date) \<Longrightarrow>
     t = start_date \<or> (start_date < t \<and> t < end_date)"
proof (induction start_date end_date rule: time_slots.induct)
  case (1 slot_start end_date)
  show ?case
  proof (cases "slot_start + interval_minutes 30 < end_date")
    case True
    from "1.prems" have "t = slot_start
        \<or> t \<in> set (time_slots (slot_start + interval_minutes 30) end_date)"
      by (subst (asm) time_slots.simps) (simp add: True)
    then show ?thesis
      using "1.IH" [OF True] True
      by (auto simp: interval_minutes_def usec_per_minute_def)
  next
    case False
    from "1.prems" have "t = slot_start"
      by (subst (asm) time_slots.simps) (simp add: False)
    then show ?thesis by simp
  qed
qed

lemma free_slots_start_range:
  "(s, e) \<in> set (free_slots events start_date end_date duration) \<Longrightarrow>
     s = start_date \<or> (start_date < s \<and> s < end_date)"
  by (auto simp: free_slots_def dest: time_slots_range)

text \<open>
  C1. Every slot the search emits should start at a local hour in [9, 17), Monday to
  Friday, so that no slot starts at 17:00 or 17:30. The macro tests the hour with
  \<^verbatim>\<open>BETWEEN 9 AND 17\<close>, which admits hour 17: over an empty table, for Monday
  2024-01-15 from 09:00 to 18:00 and 30 minutes, the slots starting at 17:00 and at 17:30
  are emitted, and they are the slots of the result whose hour is 17 or later.
\<close>

theorem free_slots_emits_hour_17:
  "filter (\<lambda>(s, e). 17 \<le> extract_hour s)
     (free_slots [] 1705309200000000 1705341600000000 30) =
   [(1705338000000000, 1705339800000000), (1705339800000000, 1705341600000000)]
   \<and> extract_hour 1705338000000000 = 17
   \<and> extract_hour 1705339800000000 = 17
   \<and> extract_dow 1705338000000000 = 1"
  by (simp add: free_slots_def time_slots.simps busy_times_def no_conflict_def
      business_hours_def weekdays_def extract_hour_def extract_dow_def date_of_def
      interval_minutes_def usec_per_minute_def usec_per_hour_def usec_per_day_def)

text \<open>
  C4, as stated: the search returns nothing when the range is empty
  (\<open>end_date \<le> start_date\<close>) or the duration is not positive. It fails on both counts:
  on Monday 2024-01-15 the range from 09:00 to 09:00 gives the slot 09:00 to 09:30, and the
  range from 09:00 to 10:00 with duration 0 gives two slots of length zero.
\<close>

theorem free_slots_degenerate_counterexample:
  "free_slots [] 1705309200000000 1705309200000000 30 =
     [(1705309200000000, 1705311000000000)]
   \<and> free_slots [] 1705309200000000 1705312800000000 0 =
     [(1705309200000000, 1705309200000000), (1705311000000000, 1705311000000000)]"
  by (simp add: free_slots_def time_slots.simps busy_times_def no_conflict_def
      business_hours_def weekdays_def extract_hour_def extract_dow_def date_of_def
      interval_minutes_def usec_per_minute_def usec_per_hour_def usec_per_day_def)

lemma free_slots_no_busy:
  "busy_times events start_date end_date = [] \<Longrightarrow>
     free_slots events start_date end_date duration =
       map (\<lambda>t. (t, t + interval_minutes duration))
         (filter (\<lambda>t. business_hours t \<and> weekdays t) (time_slots start_date end_date))"
  by (simp add: free_slots_def no_conflict_def)

lemma free_slots_first_candidate:
  "busy_times events start_date end_date = [] \<Longrightarrow> business_hours start_date \<Longrightarrow>
     weekdays start_date \<Longrightarrow>
     (start_date, start_date + interval_minutes duration)
       \<in> set (free_slots events start_date end_date duration)"
proof -
  assume busy: "busy_times events start_date end_date = []"
    and hours: "business_hours start_date" "weekdays start_date"
  have "start_date \<in> set (time_slots start_date end_date)"
    by (subst time_slots.simps) simp
  with hours show ?thesis
    unfolding free_slots_no_busy [OF busy] by (simp add: image_iff)
qed

text \<open>
  C4, amended: the macro has no guard for either case. When \<open>end_date \<le> start_date\<close> the
  only candidate is \<open>start_date\<close> itself, emitted exactly when it passes the conflict,
  hour and weekday conditions. A duration that is not positive leaves the candidates as
  they are: every emitted slot has \<open>slot_end = slot_start + duration\<close> minutes, which is
  not after \<open>slot_start\<close>; and over an empty busy set (no confirmed event within the
  range, whatever else the table holds) every candidate at a business hour of a weekday
  is emitted, so the result is not empty when \<open>start_date\<close> is such a candidate.
\<close>

theorem free_slots_degenerate:
  "(end_date \<le> start_date \<longrightarrow>
      free_slots events start_date end_date duration =
        (if no_conflict (busy_times events start_date end_date) duration start_date
            \<and> business_hours start_date \<and> weekdays start_date
         then [(start_date, start_date + interval_minutes duration)] else []))
   \<and> (duration \<le> 0 \<longrightarrow>
        (\<forall>(slot_start, slot_end) \<in> set (free_slots events start_date end_date duration).
            slot_end = slot_start + interval_minutes duration \<and> slot_end \<le> slot_start)
        \<and> (busy_times events start_date end_date = [] \<longrightarrow>
             free_slots events start_date end_date duration =
               map (\<lambda>t. (t, t + interval_minutes duration))
                 (filter (\<lambda>t. business_hours t \<and> weekdays t)
                    (time_slots start_date end_date))
             \<and> (business_hours start_date \<and> weekdays start_date \<longrightarrow>
                  free_slots events start_date end_date duration \<noteq> [])))"
proof -
  have empty_range: "end_date \<le> start_date \<longrightarrow>
      free_slots events start_date end_date duration =
        (if no_conflict (busy_times events start_date end_date) duration start_date
            \<and> business_hours start_date \<and> weekdays start_date
         then [(start_date, start_date + interval_minutes duration)] else [])"
    by (simp add: free_slots_def time_slots_empty_range)
  have reversed: "\<forall>(slot_start, slot_end) \<in> set (free_slots events start_date end_date duration).
            slot_end = slot_start + interval_minutes duration \<and> slot_end \<le> slot_start"
    if "duration \<le> 0"
  proof -
    from that have "interval_minutes duration \<le> 0"
      by (simp add: interval_minutes_def usec_per_minute_def mult_le_0_iff)
    then show ?thesis
      by (auto simp: free_slots_def)
  qed
  have all: "free_slots events start_date end_date duration =
               map (\<lambda>t. (t, t + interval_minutes duration))
                 (filter (\<lambda>t. business_hours t \<and> weekdays t)
                    (time_slots start_date end_date))"
    if "busy_times events start_date end_date = []"
    using that by (rule free_slots_no_busy)
  have some: "free_slots events start_date end_date duration \<noteq> []"
    if "busy_times events start_date end_date = []"
      and "business_hours start_date \<and> weekdays start_date"
    using free_slots_first_candidate [of events start_date end_date duration] that
    by auto
  show ?thesis
    apply (intro conjI impI)
    subgoal using empty_range by simp
    subgoal using reversed by simp
    subgoal using all by simp
    subgoal using some by simp
    done
qed

theorem free_slots_degenerate_witness:
  "(1705309200000000::int) \<le> 1705309200000000 \<and> (0::int) \<le> 0
   \<and> busy_times [row_tentative] 1705309200000000 1705309200000000 = []
   \<and> business_hours 1705309200000000 \<and> weekdays 1705309200000000
   \<and> free_slots [row_tentative] 1705309200000000 1705309200000000 0 =
       [(1705309200000000, 1705309200000000)]"
  using free_slots_degenerate [of 1705309200000000 1705309200000000 "[row_tentative]" 0]
  by (simp add: busy_times_def no_conflict_def business_hours_def weekdays_def
      extract_hour_def extract_dow_def date_of_def interval_minutes_def
      usec_per_minute_def usec_per_hour_def usec_per_day_def row_tentative_def
      row_external_def)


section \<open>Properties of the event transformer\<close>

subsection \<open>The duration in minutes\<close>

lemmas float_eval =
  float_div_def floor_log2_def round_half_even_def bit_length.simps Let_def





lemma seconds_half_hour: "float_div 1800000000 1000000 = (7916483719987200, 4398046511104)"
  by (simp add: float_eval)

lemma quotient_half_hour:
  "float_div 7916483719987200 263882790666240 = (8444249301319680, 281474976710656)"
  by (simp add: float_eval)

lemma timedelta_minutes_half_hour: "timedelta_minutes 1800000000 = 30"
  by (simp add: timedelta_minutes_def minutes_of_microseconds_def seconds_half_hour
      quotient_half_hour)




lemma seconds_open_end:
  "float_div 251698147200000000 1000000 = (8247644887449600, 32768)"
  by (simp add: float_eval)

lemma quotient_open_end:
  "float_div 8247644887449600 1966080 = (8797487879946240, 2097152)"
  by (simp add: float_eval)

lemma timedelta_minutes_open_end: "timedelta_minutes 251698147200000000 = 4194969120"
  by (simp add: timedelta_minutes_def minutes_of_microseconds_def seconds_open_end
      quotient_open_end)

text \<open>
  The floating-point quotient is not the integer quotient: a difference that is one
  microsecond short of 328212540 minutes has 328212540 minutes in the source, since its
  seconds round up to a whole number.
\<close>

lemma seconds_rounded_up:
  "float_div 19692752399999999 1000000 = (5162336885145600, 262144)"
  by (simp add: float_eval)

lemma quotient_rounded_up:
  "float_div 5162336885145600 15728640 = (5506492677488640, 16777216)"
  by (simp add: float_eval)

lemma timedelta_minutes_rounded_up:
  "timedelta_minutes 19692752399999999 = 328212540
   \<and> 19692752399999999 div usec_per_minute = 328212539"
  by (simp add: timedelta_minutes_def minutes_of_microseconds_def seconds_rounded_up
      quotient_rounded_up usec_per_minute_def)

subsection \<open>The classification and the examples\<close>

lemma split_without_separator: "sep \<notin> set s \<Longrightarrow> split sep s = [s]"
  by (induction s) auto

lemma split_local_domain:
  "sep \<notin> set l \<Longrightarrow> sep \<notin> set d \<Longrightarrow> split sep (l @ sep # d) = [l, d]"
  by (induction l) (auto simp: split_without_separator)

lemma finite_external_domains: "finite (external_domains attendees)"
  by (simp add: external_domains_def)

lemma card_external_domains:
  "card (external_domains attendees - {d}) > 0 \<longleftrightarrow> external_domains attendees - {d} \<noteq> {}"
  using finite_external_domains [of attendees] by (simp add: card_gt_0_iff)

lemma transform_meeting_type:
  "transform_event_data f event = Inr t \<Longrightarrow>
     meeting_type t = classify_meeting (get_default (raw_attendees event) [])"
  by (auto simp: transform_event_data_def Let_def split: sum.splits option.splits)

lemma classify_two_colleagues:
  "classify_meeting [\<lparr> email = Some ''a@example.com'' \<rparr>, \<lparr> email = Some ''b@example.com'' \<rparr>]
     = ''internal''"
  by (simp add: classify_meeting_def external_domains_def company_domain_def get_default_def)

lemma classify_alone:
  "classify_meeting [\<lparr> email = Some ''a@example.com'' \<rparr>] = ''personal''"
  by (simp add: classify_meeting_def external_domains_def company_domain_def get_default_def)

lemma classify_with_guest:
  "classify_meeting [\<lparr> email = Some ''a@example.com'' \<rparr>, \<lparr> email = Some ''b@other.com'' \<rparr>]
     = ''external''"
  by (simp add: classify_meeting_def external_domains_def company_domain_def get_default_def)

lemmas parser_defs =
  fromisoformat_fixed_def replace_Z_def parse_offset_def digit_of_def days_from_civil_def
  days_in_month_def is_leap_def usec_per_minute_def

lemma transform_standup:
  "transform_event_data fromisoformat_fixed event_standup = Inr fields_standup"
  by (simp add: transform_event_data_def parse_time_def event_standup_def fields_standup_def
      parser_defs datetime_sub_def timedelta_minutes_half_hour to_timestamp_def
      get_default_def classify_two_colleagues)


lemma transform_renamed:
  "transform_event_data fromisoformat_fixed event_renamed = Inr fields_renamed"
  by (simp add: transform_event_data_def parse_time_def event_renamed_def event_standup_def
      fields_renamed_def fields_standup_def
      parser_defs datetime_sub_def timedelta_minutes_half_hour to_timestamp_def
      get_default_def classify_two_colleagues)

lemma transform_open_end:
  "transform_event_data fromisoformat_fixed event_open_end = Inr fields_open_end"
  by (simp add: transform_event_data_def parse_time_def event_open_end_def event_standup_def
      fields_open_end_def fields_standup_def
      parser_defs datetime_sub_def timedelta_minutes_open_end to_timestamp_def
      get_default_def classify_two_colleagues)

lemma transform_no_start:
  "transform_event_data fromisoformat_fixed event_no_start = Inl (KeyError ''start_time'')"
  by (simp add: transform_event_data_def parse_time_def event_no_start_def event_standup_def)










text \<open>
  C5. The meeting type is a function of the attendees and of the home domain, which the
  transformer fixes to \<^verbatim>\<open>example.com\<close>: it is external when the set of the attendees'
  email domains without the home domain is not empty, otherwise internal when there is
  more than one attendee, otherwise personal. The domain of an email is what follows its
  \<^verbatim>\<open>@\<close>. The transformer stores this classification of the event's attendees. The three
  examples of the specification are classified as it says.
\<close>

theorem meeting_type_classification:
  "classify_meeting attendees =
     (if external_domains attendees - {company_domain} \<noteq> {} then ''external''
      else if length attendees > 1 then ''internal''
      else ''personal'')
   \<and> external_domains attendees =
       {split CHR ''@'' (get_default (email a) '''') ! 1 | a.
          a \<in> set attendees \<and> CHR ''@'' \<in> set (get_default (email a) '''')}
   \<and> (CHR ''@'' \<notin> set local_part \<and> CHR ''@'' \<notin> set domain \<longrightarrow>
        split CHR ''@'' (local_part @ CHR ''@'' # domain) ! 1 = domain)
   \<and> (transform_event_data f event = Inr t \<longrightarrow>
        meeting_type t = classify_meeting (get_default (raw_attendees event) []))
   \<and> company_domain = ''example.com''
   \<and> classify_meeting [\<lparr> email = Some ''a@example.com'' \<rparr>, \<lparr> email = Some ''b@other.com'' \<rparr>]
       = ''external''
   \<and> classify_meeting [\<lparr> email = Some ''a@example.com'' \<rparr>, \<lparr> email = Some ''b@example.com'' \<rparr>]
       = ''internal''
   \<and> classify_meeting [\<lparr> email = Some ''a@example.com'' \<rparr>] = ''personal''"
proof -
  have rule: "classify_meeting attendees =
     (if external_domains attendees - {company_domain} \<noteq> {} then ''external''
      else if length attendees > 1 then ''internal''
      else ''personal'')"
    unfolding classify_meeting_def card_external_domains by simp
  have domains: "external_domains attendees =
       {split CHR ''@'' (get_default (email a) '''') ! 1 | a.
          a \<in> set attendees \<and> CHR ''@'' \<in> set (get_default (email a) '''')}"
    by (auto simp: external_domains_def)
  have domain: "CHR ''@'' \<notin> set local_part \<and> CHR ''@'' \<notin> set domain \<longrightarrow>
        split CHR ''@'' (local_part @ CHR ''@'' # domain) ! 1 = domain"
    by (simp add: split_local_domain)
  have stored: "transform_event_data f event = Inr t \<longrightarrow>
        meeting_type t = classify_meeting (get_default (raw_attendees event) [])"
    by (simp add: transform_meeting_type)
  have home: "company_domain = ''example.com''"
    by (simp add: company_domain_def)
  note ex1 = classify_with_guest and ex2 = classify_two_colleagues and ex3 = classify_alone
  from rule domains domain stored home ex1 ex2 ex3 show ?thesis by blast
qed

theorem meeting_type_classification_witness:
  "CHR ''@'' \<notin> set ''b'' \<and> CHR ''@'' \<notin> set ''other.com''
   \<and> split CHR ''@'' ''b@other.com'' ! 1 = ''other.com''
   \<and> transform_event_data fromisoformat_fixed event_standup = Inr fields_standup
   \<and> meeting_type fields_standup = ''internal''
   \<and> classify_meeting (get_default (raw_attendees event_standup) []) = ''internal''"
  using meeting_type_classification
    [of "get_default (raw_attendees event_standup) []" "''b''" "''other.com''"
        fromisoformat_fixed event_standup fields_standup]
    transform_standup
  by (simp add: fields_standup_def)


section \<open>Properties of the sync\<close>

subsection \<open>One upsert\<close>

lemma stored_row_simps [simp]:
  "id (stored_row t c u) = id t"
  "created_at (stored_row t c u) = c"
  "updated_at (stored_row t c u) = u"
  "stored_row t (created_at (stored_row t c u)) u' = stored_row t c u'"
  by (simp_all add: stored_row_def)

lemma accepted_Some:
  "accepted f e = Some t \<longleftrightarrow> transform_event_data f e = Inr t \<and> columns_fit t"
  by (auto simp: accepted_def split: sum.splits if_splits)

lemma accepted_None:
  "accepted f e = None \<longleftrightarrow>
     isl (transform_event_data f e)
     \<or> (\<exists>t. transform_event_data f e = Inr t \<and> \<not> columns_fit t)"
  by (auto simp: accepted_def split: sum.splits if_splits)

lemma select_id_None: "select_id events i = None \<longleftrightarrow> i \<notin> id ` set events"
proof -
  have "select_id events i = None \<longleftrightarrow> filter (\<lambda>r. id r = i) events = []"
    by (simp add: select_id_def split: list.splits)
  also have "\<dots> \<longleftrightarrow> i \<notin> id ` set events"
    unfolding filter_empty_conv by blast
  finally show ?thesis .
qed

lemma update_event_stored:
  "update_event events t now =
     (if columns_fit t
      then Inr (map (\<lambda>r. if id r = id t then stored_row t (created_at r) now else r) events)
      else Inl (ConversionError ''out of range for INT32''))"
proof -
  have "map (\<lambda>r. if id r = id t
               then r\<lparr> title := title t, description := description t,
                       start_time := start_time t, end_time := end_time t,
                       duration_minutes := duration_minutes t,
                       attendees_count := attendees_count t,
                       meeting_type := meeting_type t, creator_email := creator_email t,
                       status := status t, location := location t,
                       is_recurring := is_recurring t, updated_at := now \<rparr>
               else r) events
        = map (\<lambda>r. if id r = id t then stored_row t (created_at r) now else r) events"
    unfolding stored_row_def
    by (rule map_cong [OF refl]) (case_tac x, simp)
  then show ?thesis
    by (simp add: update_event_def)
qed

lemma insert_event_stored:
  "insert_event events t now1 now2 =
     (if \<not> columns_fit t then Inl (ConversionError ''out of range for INT32'')
      else if id t \<in> id ` set events then Inl (ConstraintError ''Duplicate key'')
      else Inr (events @ [stored_row t now1 now2]))"
proof -
  have "list_ex (\<lambda>r. id r = id t) events \<longleftrightarrow> id t \<in> id ` set events"
    unfolding list_ex_iff image_iff by metis
  then show ?thesis
    by (simp add: insert_event_def stored_row_def)
qed

lemma process_event_failed:
  "transform_event_data f e = Inl err \<Longrightarrow>
     process_event f clock st e = st\<lparr> stats := (stats st)\<lparr> errors := errors (stats st) + 1 \<rparr> \<rparr>"
  by (simp add: process_event_def)

lemma process_event_refused:
  "transform_event_data f e = Inr t \<Longrightarrow> \<not> columns_fit t \<Longrightarrow>
     process_event f clock st e =
       st\<lparr> stats := (stats st)\<lparr> errors := errors (stats st) + 1 \<rparr>,
           ticks := ticks st + (if id t \<in> id ` set (db st) then 1 else 2) \<rparr>"
  using select_id_None [of "db st" "id t"]
  by (cases "select_id (db st) (id t)")
     (simp_all add: process_event_def update_event_stored insert_event_stored)

lemma process_event_present:
  "accepted f e = Some t \<Longrightarrow> id t \<in> id ` set (db st) \<Longrightarrow>
     process_event f clock st e =
       st\<lparr> db := map (\<lambda>r. if id r = id t then stored_row t (created_at r) (clock (ticks st))
                          else r) (db st),
           stats := (stats st)\<lparr> updated := updated (stats st) + 1 \<rparr>,
           ticks := ticks st + 1 \<rparr>"
  unfolding accepted_Some
  by (cases "select_id (db st) (id t)")
     (simp_all add: process_event_def select_id_None update_event_stored)

lemma process_event_absent:
  "accepted f e = Some t \<Longrightarrow> id t \<notin> id ` set (db st) \<Longrightarrow>
     process_event f clock st e =
       st\<lparr> db := db st @ [stored_row t (clock (ticks st)) (clock (ticks st + 1))],
           stats := (stats st)\<lparr> inserted := inserted (stats st) + 1 \<rparr>,
           ticks := ticks st + 2 \<rparr>"
  unfolding accepted_Some
  using select_id_None [of "db st" "id t"]
  by (simp add: process_event_def insert_event_stored)

lemma process_event_rejected:
  assumes "accepted f e = None"
  shows "db (process_event f clock st e) = db st"
    and "stats (process_event f clock st e) =
           (stats st)\<lparr> errors := errors (stats st) + 1 \<rparr>"
proof -
  from assms consider err where "transform_event_data f e = Inl err"
    | t where "transform_event_data f e = Inr t" "\<not> columns_fit t"
    unfolding accepted_None by (cases "transform_event_data f e") auto
  then have "db (process_event f clock st e) = db st
      \<and> stats (process_event f clock st e) = (stats st)\<lparr> errors := errors (stats st) + 1 \<rparr>"
  proof cases
    case 1
    then show ?thesis by (simp add: process_event_failed)
  next
    case 2
    then show ?thesis by (simp add: process_event_refused)
  qed
  then show "db (process_event f clock st e) = db st"
    and "stats (process_event f clock st e) = (stats st)\<lparr> errors := errors (stats st) + 1 \<rparr>"
    by simp_all
qed

lemma process_event_cases:
  obtains (rejected) "accepted f e = None"
      "db (process_event f clock st e) = db st"
      "stats (process_event f clock st e) = (stats st)\<lparr> errors := errors (stats st) + 1 \<rparr>"
  | (present) t where "accepted f e = Some t" "id t \<in> id ` set (db st)"
      "process_event f clock st e =
         st\<lparr> db := map (\<lambda>r. if id r = id t then stored_row t (created_at r) (clock (ticks st))
                            else r) (db st),
             stats := (stats st)\<lparr> updated := updated (stats st) + 1 \<rparr>,
             ticks := ticks st + 1 \<rparr>"
  | (absent) t where "accepted f e = Some t" "id t \<notin> id ` set (db st)"
      "process_event f clock st e =
         st\<lparr> db := db st @ [stored_row t (clock (ticks st)) (clock (ticks st + 1))],
             stats := (stats st)\<lparr> inserted := inserted (stats st) + 1 \<rparr>,
             ticks := ticks st + 2 \<rparr>"
proof (cases "accepted f e")
  case None
  then show ?thesis using rejected process_event_rejected by blast
next
  case (Some t)
  then show ?thesis
    using present [of t] absent [of t] process_event_present process_event_absent by blast
qed

subsection \<open>The statistics\<close>

lemma process_event_fetched:
  "fetched (stats (process_event f clock st e)) = fetched (stats st)"
  by (cases rule: process_event_cases [of f e clock st]) simp_all

lemma process_event_counted:
  "inserted (stats (process_event f clock st e)) + updated (stats (process_event f clock st e))
     + errors (stats (process_event f clock st e))
   = inserted (stats st) + updated (stats st) + errors (stats st) + 1"
  by (cases rule: process_event_cases [of f e clock st]) simp_all

lemma process_event_errors:
  "errors (stats (process_event f clock st e)) =
     errors (stats st) + (if accepted f e = None then 1 else 0)"
  by (cases rule: process_event_cases [of f e clock st]) simp_all

lemma sync_loop_fetched:
  "fetched (stats (sync_loop f clock st es)) = fetched (stats st)"
  by (induction es arbitrary: st) (simp_all add: process_event_fetched)

lemma sync_loop_counted:
  "inserted (stats (sync_loop f clock st es)) + updated (stats (sync_loop f clock st es))
     + errors (stats (sync_loop f clock st es))
   = inserted (stats st) + updated (stats st) + errors (stats st) + length es"
proof (induction es arbitrary: st)
  case Nil
  show ?case by simp
next
  case (Cons e es)
  show ?case
    using Cons.IH [of "process_event f clock st e"] process_event_counted [of f clock st e]
    by simp
qed

lemma sync_loop_errors:
  "errors (stats (sync_loop f clock st es)) = errors (stats st) + length (rejected f es)"
proof (induction es arbitrary: st)
  case Nil
  show ?case by (simp add: rejected_def)
next
  case (Cons e es)
  show ?case
    using Cons.IH [of "process_event f clock st e"] process_event_errors [of f clock st e]
    by (simp add: rejected_def)
qed

lemma handle_sync_data_success:
  "handle_sync_data f clock (Some tok) (Inr es) events =
     (let st = sync_loop f clock
                 \<lparr> db = events,
                   stats = \<lparr> fetched = length es, updated = 0, inserted = 0, errors = 0 \<rparr>,
                   ticks = 1 \<rparr> es
      in (Inr (stats st, length (db st)), db st))"
  by (simp add: handle_sync_data_def)

lemma handle_sync_data_Inr:
  "handle_sync_data f clock token response events = (Inr (s, n), events') \<Longrightarrow>
     \<exists>tok es. token = Some tok \<and> response = Inr es"
  by (auto simp: handle_sync_data_def split: option.splits sum.splits)

subsection \<open>Unique ids\<close>

lemma update_keeps_ids:
  "map id (map (\<lambda>r. if id r = id t then stored_row t (c r) u else r) events) = map id events"
  by (induction events) simp_all

lemma process_event_ids:
  "id ` set (db (process_event f clock st e)) =
     id ` set (db st) \<union> (case accepted f e of None \<Rightarrow> {} | Some t \<Rightarrow> {id t})"
proof (cases rule: process_event_cases [of f e clock st])
  case rejected
  then show ?thesis by simp
next
  case (present t)
  have "id ` set (map (\<lambda>r. if id r = id t
                           then stored_row t (created_at r) (clock (ticks st)) else r) (db st))
        = id ` set (db st)"
    using update_keeps_ids [of t created_at "clock (ticks st)" "db st"]
    by (metis set_map)
  with present show ?thesis by (simp add: insert_absorb)
next
  case (absent t)
  then show ?thesis by simp
qed



lemma sync_loop_ids:
  "id ` set (db (sync_loop f clock st es)) =
     id ` set (db st) \<union> {i. touched f es i}"
proof (induction es arbitrary: st)
  case Nil
  show ?case by (simp add: touched_def)
next
  case (Cons e es)
  have "{i. touched f (e # es) i} =
          (case accepted f e of None \<Rightarrow> {} | Some t \<Rightarrow> {id t}) \<union> {i. touched f es i}"
    by (auto simp: touched_def split: option.splits)
  with Cons.IH [of "process_event f clock st e"] show ?case
    by (simp add: process_event_ids Un_assoc)
qed


subsection \<open>The claims about one sync\<close>

lemmas store_eval =
  handle_sync_data_def process_event_def select_id_def insert_event_stored update_event_stored
  columns_fit_def fits_integer_def ticking_clock_def


lemma sync_example_failure:
  "handle_sync_data fromisoformat_fixed ticking_clock (Some ''token'')
     (Inr [event_no_start, event_standup]) [] =
   (Inr (\<lparr> fetched = 2, updated = 0, inserted = 1, errors = 1 \<rparr>, 1),
    [stored_row fields_standup 1705400000000001 1705400000000002])"
  by (simp add: store_eval transform_no_start transform_standup fields_standup_def)

lemma sync_example_same_id:
  "handle_sync_data fromisoformat_fixed ticking_clock (Some ''token'')
     (Inr [event_standup, event_renamed]) [] =
   (Inr (\<lparr> fetched = 2, updated = 1, inserted = 1, errors = 0 \<rparr>, 1),
    [stored_row fields_renamed 1705400000000001 1705400000000003])"
  by (simp add: store_eval transform_renamed transform_standup fields_standup_def
      fields_renamed_def stored_row_def)

text \<open>
  The meeting with the open end has 4194969120 minutes, more than an \<^verbatim>\<open>INTEGER\<close> holds:
  its insertion raises, the loop counts an error, and the next event of the same id is
  inserted, at the third and fourth reading of the clock.
\<close>

lemma sync_example_refused:
  "handle_sync_data fromisoformat_fixed ticking_clock (Some ''token'')
     (Inr [event_open_end, event_standup]) [] =
   (Inr (\<lparr> fetched = 2, updated = 0, inserted = 1, errors = 1 \<rparr>, 1),
    [stored_row fields_standup 1705400000000003 1705400000000004])"
  by (simp add: store_eval transform_open_end transform_standup fields_standup_def
      fields_open_end_def)

text \<open>
  C10. When the token is present and the request succeeds, the sync returns statistics
  in which \<open>fetched\<close> is the number of events of the response and equals
  \<open>inserted + updated + errors\<close>: every fetched event is counted exactly once, as an
  insertion, as an update, or as an error of the transformer or of the statement.
\<close>

theorem sync_stats_account:
  "\<exists>s n. fst (handle_sync_data f clock (Some tok) (Inr es) events) = Inr (s, n)
     \<and> fetched s = length es
     \<and> fetched s = inserted s + updated s + errors s"
  using sync_loop_counted [of f clock
      "\<lparr> db = events,
         stats = \<lparr> fetched = length es, updated = 0, inserted = 0, errors = 0 \<rparr>,
         ticks = 1 \<rparr>" es]
  by (simp add: handle_sync_data_success Let_def sync_loop_fetched)










subsection \<open>Syncing the same feed again\<close>

lemma sync_loop_rows:
  "r \<in> set (db (sync_loop f clock st es)) \<Longrightarrow>
     (case last_write f es (id r) of
        Some t \<Rightarrow> r = stored_row t (created_at r) (updated_at r)
      | None \<Rightarrow> r \<in> set (db st))"
proof (induction es arbitrary: st)
  case Nil
  then show ?case by simp
next
  case (Cons e es)
  let ?mid = "process_event f clock st e"
  from Cons.prems have r: "r \<in> set (db (sync_loop f clock ?mid es))" by simp
  note IH = Cons.IH [OF r]
  show ?case
  proof (cases "last_write f es (id r)")
    case (Some t)
    with IH show ?thesis by simp
  next
    case None
    with IH have mid: "r \<in> set (db ?mid)" by simp
    show ?thesis
    proof (cases rule: process_event_cases [of f e clock st])
      case rejected
      with mid None show ?thesis by simp
    next
      case (present t)
      from mid present(3) obtain r0 where r0: "r0 \<in> set (db st)"
        and r_def: "r = (if id r0 = id t
                         then stored_row t (created_at r0) (clock (ticks st)) else r0)"
        by auto
      show ?thesis
      proof (cases "id r0 = id t")
        case True
        with r_def have "r = stored_row t (created_at r0) (clock (ticks st))" by simp
        then show ?thesis using None present(1) by simp
      next
        case False
        with r_def have "r = r0" by simp
        with False r0 None present(1) show ?thesis by simp
      qed
    next
      case (absent t)
      from mid absent(3)
      have "r \<in> set (db st) \<or> r = stored_row t (clock (ticks st)) (clock (ticks st + 1))"
        by auto
      then show ?thesis
      proof
        assume old: "r \<in> set (db st)"
        with absent(2) have "id t \<noteq> id r" by auto
        with old None absent(1) show ?thesis by simp
      next
        assume "r = stored_row t (clock (ticks st)) (clock (ticks st + 1))"
        then show ?thesis using None absent(1) by simp
      qed
    qed
  qed
qed

lemma sync_loop_keeps_ids:
  "i \<in> id ` set (db st) \<Longrightarrow> i \<in> id ` set (db (sync_loop f clock st es))"
proof (induction es arbitrary: st)
  case Nil
  then show ?case by simp
next
  case (Cons e es)
  from Cons.prems have "i \<in> id ` set (db (process_event f clock st e))"
    unfolding process_event_ids by simp
  from Cons.IH [OF this] show ?case by simp
qed

lemma sync_loop_covers:
  "e \<in> set es \<Longrightarrow> accepted f e = Some t \<Longrightarrow>
     id t \<in> id ` set (db (sync_loop f clock st es))"
proof (induction es arbitrary: st)
  case Nil
  then show ?case by simp
next
  case (Cons e' es)
  show ?case
  proof (cases "e = e'")
    case True
    with Cons.prems(2) have "id t \<in> id ` set (db (process_event f clock st e'))"
      unfolding process_event_ids by simp
    from sync_loop_keeps_ids [OF this] show ?thesis by simp
  next
    case False
    with Cons.prems(1) have "e \<in> set es" by simp
    from Cons.IH [OF this Cons.prems(2)] show ?thesis by simp
  qed
qed

lemma rewritten_rejected:
  "accepted f e = None \<Longrightarrow> rewritten f es r r' \<Longrightarrow> rewritten f (e # es) r r'"
  by (auto simp: rewritten_def split: option.splits)

lemma rewritten_updated:
  "accepted f e = Some t \<Longrightarrow>
     rewritten f es (if id r = id t then stored_row t (created_at r) u else r) r' \<Longrightarrow>
     rewritten f (e # es) r r'"
  by (cases "id r = id t"; cases "last_write f es (id r)")
     (auto simp: rewritten_def split: option.splits)

lemma sync_loop_covered:
  "(\<And>e t. e \<in> set es \<Longrightarrow> accepted f e = Some t \<Longrightarrow> id t \<in> id ` set (db st)) \<Longrightarrow>
     inserted (stats (sync_loop f clock st es)) = inserted (stats st)
     \<and> list_all2 (rewritten f es) (db st) (db (sync_loop f clock st es))"
proof (induction es arbitrary: st)
  case Nil
  have "list_all2 (rewritten f []) (db st) (db st)"
    by (rule list_all2_refl) (simp add: rewritten_def)
  then show ?case by simp
next
  case (Cons e es)
  let ?mid = "process_event f clock st e"
  show ?case
  proof (cases rule: process_event_cases [of f e clock st])
    case rejected
    have "id t \<in> id ` set (db ?mid)"
      if "e' \<in> set es" and "accepted f e' = Some t" for e' t
    proof -
      from that have "id t \<in> id ` set (db st)" using Cons.prems [of e' t] by simp
      then show ?thesis using rejected(2) by simp
    qed
    from Cons.IH [OF this] rejected(2,3)
    have ins: "inserted (stats (sync_loop f clock ?mid es)) = inserted (stats st)"
      and rel: "list_all2 (rewritten f es) (db st) (db (sync_loop f clock ?mid es))"
      by simp_all
    from rel have "list_all2 (rewritten f (e # es)) (db st) (db (sync_loop f clock ?mid es))"
      by (rule list_all2_mono) (rule rewritten_rejected [OF rejected(1)])
    with ins show ?thesis by simp
  next
    case (present t)
    let ?g = "\<lambda>r. if id r = id t then stored_row t (created_at r) (clock (ticks st)) else r"
    have mid_db: "db ?mid = map ?g (db st)"
      using present(3) by simp
    have ids: "id ` set (db ?mid) = id ` set (db st)"
      using process_event_ids [of f clock st e] present(1,2) by (simp add: insert_absorb)
    have "id t' \<in> id ` set (db ?mid)"
      if "e' \<in> set es" and "accepted f e' = Some t'" for e' t'
    proof -
      from that have "id t' \<in> id ` set (db st)" using Cons.prems [of e' t'] by simp
      then show ?thesis unfolding ids .
    qed
    from Cons.IH [OF this]
    have ins: "inserted (stats (sync_loop f clock ?mid es)) = inserted (stats ?mid)"
      and rel: "list_all2 (rewritten f es) (db ?mid) (db (sync_loop f clock ?mid es))"
      by simp_all
    from rel have "list_all2 (\<lambda>r. rewritten f es (?g r)) (db st)
                      (db (sync_loop f clock ?mid es))"
      unfolding mid_db by (simp add: list_all2_map1)
    then have "list_all2 (rewritten f (e # es)) (db st) (db (sync_loop f clock ?mid es))"
      by (rule list_all2_mono) (rule rewritten_updated [OF present(1)])
    moreover have "inserted (stats ?mid) = inserted (stats st)"
      using present(3) by simp
    ultimately show ?thesis using ins by simp
  next
    case (absent t)
    from Cons.prems [of e t] absent(1) have "id t \<in> id ` set (db st)" by simp
    with absent(2) show ?thesis by simp
  qed
qed

lemma without_updated_at_stored [simp]:
  "without_updated_at (stored_row t c u) = stored_row t c 0"
  by (simp add: without_updated_at_def stored_row_def)

lemma list_all2_map_eq:
  "list_all2 (\<lambda>x y. g y = g x) xs ys \<Longrightarrow> map g ys = map g xs"
  by (induction rule: list_all2_induct) simp_all

lemma last_write_touched:
  "(last_write f es i = None) = (\<not> touched f es i)"
  by (induction es) (auto simp: touched_def split: option.splits)

lemma resynced_same:
  "resynced f es r r' \<Longrightarrow> without_updated_at r' = without_updated_at r"
  by (simp add: resynced_def split: if_splits)

text \<open>
  The meeting synced twice into an empty table, the second time three seconds later:
  the second call updates the one row, and only its \<^verbatim>\<open>updated_at\<close> changes.
\<close>

lemma sync_example_again:
  "handle_sync_data fromisoformat_fixed (\<lambda>k. ticking_clock k + 3000000) (Some ''token'')
     (Inr [event_standup])
     (snd (handle_sync_data fromisoformat_fixed ticking_clock (Some ''token'')
             (Inr [event_standup]) [])) =
   (Inr (\<lparr> fetched = 1, updated = 1, inserted = 0, errors = 0 \<rparr>, 1),
    [stored_row fields_standup 1705400000000001 1705400003000001])"
  by (simp add: store_eval transform_standup fields_standup_def stored_row_def)

text \<open>
  C6. Syncing a feed and then syncing the same feed again, whatever the two clocks read
  and whatever the table held before: the second call returns statistics with
  \<open>inserted = 0\<close>, and it leaves the table after the first call as it was, row by row,
  but for \<open>updated_at\<close>: a row whose id no written event of the feed has is the same
  row, with the same \<open>updated_at\<close>, and a row whose id a written event of the feed has
  is the same in every column but \<open>updated_at\<close>. An event is written when the
  transformer does not raise on it and the table does not refuse its row; the events
  that are not written the first time are not written the second time either.
\<close>

theorem sync_idempotent:
  "\<exists>s n. fst (handle_sync_data f clock2 (Some tok2) (Inr es)
                (snd (handle_sync_data f clock1 (Some tok1) (Inr es) events))) = Inr (s, n)
     \<and> inserted s = 0
     \<and> errors s = length (rejected f es)
     \<and> list_all2 (resynced f es)
         (snd (handle_sync_data f clock1 (Some tok1) (Inr es) events))
         (snd (handle_sync_data f clock2 (Some tok2) (Inr es)
                (snd (handle_sync_data f clock1 (Some tok1) (Inr es) events))))
     \<and> map without_updated_at
         (snd (handle_sync_data f clock2 (Some tok2) (Inr es)
                (snd (handle_sync_data f clock1 (Some tok1) (Inr es) events))))
       = map without_updated_at
           (snd (handle_sync_data f clock1 (Some tok1) (Inr es) events))"
proof -
  let ?zero = "\<lparr> fetched = length es, updated = 0, inserted = 0, errors = 0 \<rparr>"
  let ?first = "sync_loop f clock1 \<lparr> db = events, stats = ?zero, ticks = 1 \<rparr> es"
  let ?again = "\<lparr> db = db ?first, stats = ?zero, ticks = 1 \<rparr>"
  let ?second = "sync_loop f clock2 ?again es"
  have one: "handle_sync_data f clock1 (Some tok1) (Inr es) events =
               (Inr (stats ?first, length (db ?first)), db ?first)"
    by (simp add: handle_sync_data_success Let_def)
  have two: "handle_sync_data f clock2 (Some tok2) (Inr es) (db ?first) =
               (Inr (stats ?second, length (db ?second)), db ?second)"
    by (simp add: handle_sync_data_success Let_def)
  have covered: "id t \<in> id ` set (db ?again)"
    if "e \<in> set es" and "accepted f e = Some t" for e t
    using sync_loop_covers [OF that] by simp
  from sync_loop_covered [of es f ?again clock2, OF covered]
  have ins: "inserted (stats ?second) = 0"
    and rel: "list_all2 (rewritten f es) (db ?first) (db ?second)"
    by simp_all
  have err: "errors (stats ?second) = length (rejected f es)"
    using sync_loop_errors [of f clock2 ?again es] by simp
  have res: "list_all2 (resynced f es) (db ?first) (db ?second)"
    using rel
  proof (rule list.rel_mono_strong)
    fix r r'
    assume r: "r \<in> set (db ?first)" and rw: "rewritten f es r r'"
    show "resynced f es r r'"
    proof (cases "last_write f es (id r)")
      case None
      then have "\<not> touched f es (id r)"
        by (simp add: last_write_touched)
      moreover from rw None have "r' = r"
        by (simp add: rewritten_def)
      ultimately show ?thesis
        by (simp add: resynced_def)
    next
      case (Some t)
      then have touched: "touched f es (id r)"
        using last_write_touched [of f es "id r"] by simp
      from Some sync_loop_rows [OF r] have "r = stored_row t (created_at r) (updated_at r)"
        by simp
      then have a: "without_updated_at r = stored_row t (created_at r) 0"
        by (metis without_updated_at_stored)
      from rw Some have "r' = stored_row t (created_at r) (updated_at r')"
        by (simp add: rewritten_def)
      then have "without_updated_at r' = stored_row t (created_at r) 0"
        by (metis without_updated_at_stored)
      with a touched show ?thesis
        by (simp add: resynced_def)
    qed
  qed
  then have "list_all2 (\<lambda>r r'. without_updated_at r' = without_updated_at r)
               (db ?first) (db ?second)"
    by (rule list_all2_mono) (rule resynced_same)
  then have same: "map without_updated_at (db ?second) = map without_updated_at (db ?first)"
    by (rule list_all2_map_eq)
  from ins err res same show ?thesis
    unfolding one two snd_conv fst_conv by blast
qed


section \<open>Properties of the insights report\<close>

lemma breakdown_lines_succeeds: "\<exists>lines. breakdown_lines h rows = Inr lines"
proof (induction rows)
  case Nil
  show ?case by simp
next
  case (Cons row rows)
  obtain mt n hours where row: "row = (mt, n, hours)"
    by (cases row) auto
  from Cons obtain lines where "breakdown_lines h rows = Inr lines" by blast
  then show ?case
    by (simp add: row bind_result_def py_truediv_def)
qed

lemma average_meeting_length_value:
  "average_meeting_length_of h n = Inr (if n > 0 then h * 60 / of_int n else 0)"
  by (simp add: average_meeting_length_of_def py_truediv_def)

lemma external_hours_zero: "external_hours meeting_breakdown = 0"
  by (simp add: external_hours_def)

lemma recommendations_value:
  "h > 0 \<Longrightarrow>
     recommendations_of h n meeting_breakdown =
       Inr ((if h > 20 then [HighMeetingLoad] else [])
            @ (if (if n > 0 then h * 60 / of_int n else 0) > 45
               then [LongAverageDuration] else [])
            @ [ScheduleReview])"
  by (simp add: recommendations_of_def external_hours_zero py_truediv_def bind_result_def
      average_meeting_length_value)

lemma recommendations_succeed:
  "\<exists>recs. (if include_recommendations \<and> h > 0
           then recommendations_of h n meeting_breakdown else Inr []) = Inr recs
          \<and> HighExternalRatio \<notin> set recs"
  by (simp add: recommendations_value)

lemma window_days:
  "(now - (now - period_days time_period * usec_per_day)) div usec_per_day
     = period_days time_period"
  by (simp add: usec_per_day_def)

lemma period_days_nonzero: "(of_int (period_days time_period) :: rat) \<noteq> 0"
  by (simp add: period_days_def)

lemma handle_generate_insights_value:
  "\<exists>lines recs.
     breakdown_lines
       (total_hours_query events (now - period_days time_period * usec_per_day) now)
       (meeting_breakdown_query events (now - period_days time_period * usec_per_day) now)
       = Inr lines
     \<and> HighExternalRatio \<notin> set recs
     \<and> handle_generate_insights now time_period include_recommendations events =
         Inr \<lparr> period_name = period_title time_period,
               total_meetings =
                 total_meetings_query events (now - period_days time_period * usec_per_day) now,
               total_hours =
                 total_hours_query events (now - period_days time_period * usec_per_day) now,
               average_per_day =
                 total_hours_query events (now - period_days time_period * usec_per_day) now
                   / of_int (period_days time_period),
               average_meeting_length_minutes =
                 (if total_meetings_query events
                       (now - period_days time_period * usec_per_day) now > 0
                  then total_hours_query events
                         (now - period_days time_period * usec_per_day) now * 60
                       / of_int (total_meetings_query events
                                   (now - period_days time_period * usec_per_day) now)
                  else 0),
               breakdown = lines,
               busiest_days =
                 busiest_days_query events (now - period_days time_period * usec_per_day) now,
               recommendations = recs \<rparr>"
proof -
  let ?start = "now - period_days time_period * usec_per_day"
  let ?hours = "total_hours_query events ?start now"
  let ?n = "total_meetings_query events ?start now"
  let ?rows = "meeting_breakdown_query events ?start now"
  obtain lines where lines: "breakdown_lines ?hours ?rows = Inr lines"
    using breakdown_lines_succeeds by blast
  obtain recs where recs:
    "(if include_recommendations \<and> ?hours > 0
      then recommendations_of ?hours ?n ?rows else Inr []) = Inr recs"
    and no_flag: "HighExternalRatio \<notin> set recs"
    using recommendations_succeed by blast
  have "handle_generate_insights now time_period include_recommendations events =
         Inr \<lparr> period_name = period_title time_period,
               total_meetings = ?n,
               total_hours = ?hours,
               average_per_day = ?hours / of_int (period_days time_period),
               average_meeting_length_minutes =
                 (if ?n > 0 then ?hours * 60 / of_int ?n else 0),
               breakdown = lines,
               busiest_days = busiest_days_query events ?start now,
               recommendations = recs \<rparr>"
    unfolding handle_generate_insights_def Let_def window_days
    by (simp only: lines recs average_meeting_length_value)
       (simp add: bind_result_def py_truediv_def period_days_def)
  with lines no_flag show ?thesis by blast
qed

lemma high_external_ratio_never_flagged:
  "handle_generate_insights now time_period include_recommendations events = Inr report \<Longrightarrow>
     HighExternalRatio \<notin> set (recommendations report)"
  using handle_generate_insights_value [of events now time_period include_recommendations]
  by auto

text \<open>
  C3. With recommendations requested and a positive total, the recommendation about a
  high share of external meetings should be emitted exactly when the external hours are
  more than 60% of the total. In the generator expression that sums the external hours,
  the name \<^verbatim>\<open>_\<close> holds the count of the row when the condition compares it with
  \<^verbatim>\<open>"external"\<close>, so the sum is always zero and the recommendation is never emitted. For
  a store whose only meeting of the past week is a confirmed external meeting of thirty
  minutes, the external share is 100% and the report has no such recommendation.
\<close>

theorem external_ratio_not_flagged:
  "handle_generate_insights 1705400000000000 ''week'' True [row_external] =
     Inr \<lparr> period_name = ''Past Week'',
           total_meetings = 1,
           total_hours = 1 / 2,
           average_per_day = 1 / 14,
           average_meeting_length_minutes = 30,
           breakdown = [(''external'', 1, 1 / 2, 100)],
           busiest_days = [(19737, 1, 1 / 2)],
           recommendations = [ScheduleReview] \<rparr>"
  by (simp add: handle_generate_insights_def row_external_def period_days_def
      period_title_def usec_per_day_def total_meetings_query_def total_hours_query_def
      meeting_breakdown_query_def busiest_days_query_def confirmed_between_def hours_of_def
      group_by_def py_truediv_def bind_result_def average_meeting_length_of_def
      recommendations_of_def external_hours_def date_of_def Let_def)

text \<open>
  C9. The report is always produced: no division of the handler has a zero divisor. Its
  total of meetings is the number of confirmed events of the window, and its average
  meeting length is \<open>total_hours * 60 / total_meetings\<close> when there is a meeting and
  \<open>0\<close> when there is none.
\<close>

theorem average_meeting_length_guarded:
  "\<exists>report. handle_generate_insights now time_period include_recommendations events = Inr report
     \<and> total_meetings report =
         int (length (confirmed_between events
                        (now - period_days time_period * usec_per_day) now))
     \<and> total_hours report =
         of_int (sum_list (map duration_minutes
                   (confirmed_between events
                      (now - period_days time_period * usec_per_day) now))) / 60
     \<and> average_meeting_length_minutes report =
         (if total_meetings report > 0
          then total_hours report * 60 / of_int (total_meetings report)
          else 0)"
  using handle_generate_insights_value [of events now time_period include_recommendations]
  by (auto simp: total_meetings_query_def total_hours_query_def hours_of_def)


end
